theory Spec2Isabelle
  imports Complex_Main "HOL-Library.Sublist"
begin

section \<open>Sensitive-span merger (utils/utils.py, extract_sensitive_sequences)\<close>

text \<open>
  A tagged token as the tagger service returns it (schemas/ner_schemas.py, NEREntity).
  The confidence score is carried along and never read by the merger.
\<close>

record ner_entity =
  entity_text :: string
  entity_label :: string
  confidence_score :: real

text \<open>
  Python's \<^verbatim>\<open>entity_text.replace("##", "")\<close>: every non-overlapping occurrence of the
  two-character marker is removed, scanning from the left.
\<close>

fun replace_hashes :: "string \<Rightarrow> string" where
  "replace_hashes [] = []"
| "replace_hashes [c] = [c]"
| "replace_hashes (c # d # cs) =
     (if c = CHR ''#'' \<and> d = CHR ''#'' then replace_hashes cs
      else c # replace_hashes (d # cs))"

text \<open>
  \<^verbatim>\<open>label.split("-", 1)\<close> on a label that holds a dash: the text before the first dash
  and the text after it.
\<close>

definition split_dash :: "string \<Rightarrow> string \<times> string" where
  "split_dash label =
     (takeWhile (\<lambda>c. c \<noteq> CHR ''-'') label, tl (dropWhile (\<lambda>c. c \<noteq> CHR ''-'') label))"

text \<open>
  The three local variables of the loop: the fragments emitted so far, the token texts of
  the open fragment and its type (None when no fragment is open).
\<close>

record merger_state =
  sequences :: "string list"
  current_sequence :: "string list"
  current_label_type :: "string option"

definition merger_init :: merger_state where
  "merger_init = \<lparr>sequences = [], current_sequence = [], current_label_type = None\<rparr>"

text \<open>
  One iteration of the loop body. The dictionary of non-sensitive labels is a map from
  label to id; only membership of the key is tested. The branches follow the source in
  order; a label with a dash whose prefix is neither B nor I reaches the end of the body
  with no branch taken.
\<close>

definition merger_step :: "(string \<rightharpoonup> nat) \<Rightarrow> merger_state \<Rightarrow> ner_entity \<Rightarrow> merger_state" where
  "merger_step non_sensitive_labels st entity =
     (let label = entity_label entity in
      if non_sensitive_labels label \<noteq> None then
        (if current_sequence st \<noteq> [] then
           st\<lparr>sequences := sequences st @ [concat (current_sequence st)],
              current_sequence := [], current_label_type := None\<rparr>
         else st)
      else if CHR ''-'' \<notin> set label then
        (if current_sequence st \<noteq> [] then
           st\<lparr>sequences := sequences st @ [concat (current_sequence st)],
              current_sequence := [], current_label_type := None\<rparr>
         else st)
      else
        (let (prefix, label_type) = split_dash label;
             clean_text = replace_hashes (entity_text entity) in
         if prefix = ''B'' then
           (if current_sequence st \<noteq> [] then
              st\<lparr>sequences := sequences st @ [concat (current_sequence st)],
                 current_sequence := [clean_text], current_label_type := Some label_type\<rparr>
            else st\<lparr>current_sequence := [clean_text], current_label_type := Some label_type\<rparr>)
         else if prefix = ''I'' then
           (if current_label_type st = Some label_type \<and> current_sequence st \<noteq> [] then
              st\<lparr>current_sequence := current_sequence st @ [clean_text]\<rparr>
            else if current_sequence st \<noteq> [] then
              st\<lparr>sequences := sequences st @ [concat (current_sequence st)],
                 current_sequence := [clean_text], current_label_type := Some label_type\<rparr>
            else st\<lparr>current_sequence := [clean_text], current_label_type := Some label_type\<rparr>)
         else st))"

text \<open>The loop over the tokens, then the flush of a fragment still open at the end.\<close>

definition merger_flush :: "merger_state \<Rightarrow> string list" where
  "merger_flush st =
     (if current_sequence st \<noteq> [] then sequences st @ [concat (current_sequence st)]
      else sequences st)"

definition extract_sensitive_sequences :: "ner_entity list \<Rightarrow> (string \<rightharpoonup> nat) \<Rightarrow> string list" where
  "extract_sensitive_sequences ner_entities non_sensitive_labels =
     merger_flush (foldl (merger_step non_sensitive_labels) merger_init ner_entities)"

definition tok :: "string \<Rightarrow> string \<Rightarrow> ner_entity" where
  "tok t l = \<lparr>entity_text = t, entity_label = l, confidence_score = 1\<rparr>"

definition only_O :: "string \<rightharpoonup> nat" where
  "only_O = [''O'' \<mapsto> 110]"

section \<open>Activities (schemas/activity_schemas.py)\<close>

text \<open>
  The two variants of an activity. Time stamps and durations are numbers; the image type
  is a parameter. Both classes of the source have a field for the extracted keyword
  string under one name, which is reserved in Isabelle; the two fields carry a prefix here.
\<close>

record application_activity =
  app_name :: string
  window_title :: string
  exe_path :: string
  cmd_command :: string
  duration_seconds :: real
  app_keywords :: string
  app_activity_timestamp :: real

record 'img screenshot_activity =
  screenshot_id :: string
  screenshot_ocr_text :: string
  screenshot_keywords :: string
  original_screenshot_pil_image :: 'img
  modified_screenshot_pil_image :: 'img
  screenshot_timestamp :: real

datatype 'img activity =
  Screenshot "'img screenshot_activity"
| Application application_activity

section \<open>Vector index store (services/index_manager.py)\<close>

text \<open>The exceptions that the modelled code paths raise, by their Python class.\<close>

datatype py_error =
  TypeError | ValueError | KeyError | IndexError | AssertionError
| FileNotFoundError | OSError | UnpicklingError | ValidationError | ServiceError

text \<open>
  A metadata entry is a dictionary with string keys. The pollers store an activity under
  the key activity and its class under the key type; the type of the values is Any in the
  source, so a value that is neither is possible.
\<close>

datatype 'img meta_value =
  ActivityValue "'img activity"
| TypeValue string
| OtherValue

type_synonym 'img metadata = "(string \<times> 'img meta_value) list"

text \<open>
  The flat L2 index of the faiss library: its dimension and the vectors added so far, in
  order. Adding a batch of rows fails the library's assertion when a row has another
  dimension; an empty batch has no second axis and fails when its shape is unpacked.
\<close>

record faiss_index =
  idx_d :: nat
  idx_vectors :: "real list list"

definition IndexFlatL2 :: "nat \<Rightarrow> faiss_index" where
  "IndexFlatL2 n = \<lparr>idx_d = n, idx_vectors = []\<rparr>"

definition ntotal :: "faiss_index \<Rightarrow> nat" where
  "ntotal idx = length (idx_vectors idx)"

definition faiss_add :: "faiss_index \<Rightarrow> real list list \<Rightarrow> py_error + faiss_index" where
  "faiss_add idx rows =
     (if rows = [] then Inl ValueError
      else if list_all (\<lambda>r. length r = idx_d idx) rows
        then Inr (idx\<lparr>idx_vectors := idx_vectors idx @ rows\<rparr>)
      else Inl AssertionError)"

text \<open>
  The search of the flat index for one query: the positions of the k nearest vectors,
  nearest first, padded with -1 when the index holds fewer than k vectors (the library's
  documented filler for a missing neighbour). The distance between the query and a
  vector is the squared Euclidean distance as the library computes it in single
  precision; the model takes this function as a parameter.
\<close>

definition faiss_search ::
  "(real list \<Rightarrow> real list \<Rightarrow> real) \<Rightarrow> faiss_index \<Rightarrow> real list \<Rightarrow> nat \<Rightarrow> py_error + int list" where
  "faiss_search distance idx q k =
     (if length q \<noteq> idx_d idx \<or> k = 0 then Inl AssertionError
      else
        (let vs = idx_vectors idx;
             ranked = map snd (sort_key fst (zip (map (distance q) vs) [0..<length vs]))
         in Inr (map int (take k ranked) @ replicate (k - length vs) (- 1))))"

text \<open>
  What a path of the file system holds: a file that joblib cannot load into a
  dictionary, or the dictionary of a session, each of whose four keys may be missing.
\<close>

record 'img session_dict =
  f_index :: "faiss_index option"
  f_metadata :: "'img metadata list option"
  f_dim :: "nat option"
  f_faiss_version :: "string option"

datatype 'img disk_file = Unreadable | Pickled "'img session_dict"

type_synonym 'img files = "string \<rightharpoonup> 'img disk_file"

text \<open>The fields of FaissIndexManager; the embedder is passed to the operations.\<close>

record 'img index_manager =
  index :: "faiss_index option"
  metadata_store :: "'img metadata list"
  dim :: nat
  current_index_file_path :: "string option"

definition new_index_manager :: "nat \<Rightarrow> 'img index_manager" where
  "new_index_manager n =
     \<lparr>index = None, metadata_store = [], dim = n, current_index_file_path = None\<rparr>"

definition endswith :: "string \<Rightarrow> string \<Rightarrow> bool" where
  "endswith s suf = (length suf \<le> length s \<and> drop (length s - length suf) s = suf)"

definition with_joblib_ext :: "string \<Rightarrow> string" where
  "with_joblib_ext path = (if endswith path ''.joblib'' then path else path @ ''.joblib'')"

text \<open>
  get_activities_metadata: the value under the key activity of every entry, in order; a
  missing key raises KeyError, and the Activities model rejects a value that is not an
  activity.
\<close>

fun lookup_activities :: "'img metadata list \<Rightarrow> py_error + 'img meta_value list" where
  "lookup_activities [] = Inr []"
| "lookup_activities (activity_dict # rest) =
     (case map_of activity_dict ''activity'' of
        None \<Rightarrow> Inl KeyError
      | Some v \<Rightarrow>
          (case lookup_activities rest of Inl e \<Rightarrow> Inl e | Inr vs \<Rightarrow> Inr (v # vs)))"

fun Activities :: "'img meta_value list \<Rightarrow> py_error + 'img activity list" where
  "Activities [] = Inr []"
| "Activities (ActivityValue a # vs) =
     (case Activities vs of Inl e \<Rightarrow> Inl e | Inr as \<Rightarrow> Inr (a # as))"
| "Activities (_ # vs) = Inl ValidationError"

definition get_activities_metadata :: "'img index_manager \<Rightarrow> py_error + 'img activity list" where
  "get_activities_metadata m =
     (case lookup_activities (metadata_store m) of
        Inl e \<Rightarrow> Inl e
      | Inr vs \<Rightarrow> Activities vs)"

text \<open>
  What the file system does with a write is an input of the model: the write succeeds,
  the directory cannot be created (nothing is written), or the dump fails after the file
  was opened (a file that cannot be loaded is left behind).
\<close>

datatype write_outcome = WriteOk | MakedirsFails | DumpFails

text \<open>
  save_index. An index object is truthy, so the first test fails only without an index.
  The library version stored with the session is a parameter.
\<close>

definition save_index ::
  "string \<Rightarrow> write_outcome \<Rightarrow> 'img index_manager \<Rightarrow> 'img files \<Rightarrow> (py_error + unit) \<times> 'img files" where
  "save_index ver w m fs =
     (case index m of
        None \<Rightarrow> (Inl ValueError, fs)
      | Some idx \<Rightarrow>
          (case current_index_file_path m of
             None \<Rightarrow> (Inl TypeError, fs)
           | Some p \<Rightarrow>
               (case w of
                  MakedirsFails \<Rightarrow> (Inl OSError, fs)
                | DumpFails \<Rightarrow> (Inl OSError, fs(p \<mapsto> Unreadable))
                | WriteOk \<Rightarrow>
                    (Inr (),
                     fs(p \<mapsto> Pickled \<lparr>f_index = Some idx, f_metadata = Some (metadata_store m),
                                       f_dim = Some (dim m), f_faiss_version = Some ver\<rparr>)))))"

text \<open>
  add_text. The text is embedded first. Without an index the source raises a string,
  which Python 3 refuses with a TypeError (exceptions must derive from BaseException).
  Otherwise the vector is added, the metadata appended and the session saved, in this
  order and with no handler around the save.
\<close>

definition add_text ::
  "(string \<Rightarrow> py_error + real list) \<Rightarrow> string \<Rightarrow> write_outcome \<Rightarrow>
   'img index_manager \<Rightarrow> 'img files \<Rightarrow> string \<Rightarrow> 'img metadata \<Rightarrow>
   (py_error + unit) \<times> 'img index_manager \<times> 'img files" where
  "add_text embed_text ver w m fs text metadata =
     (case embed_text text of
        Inl e \<Rightarrow> (Inl e, m, fs)
      | Inr embedding \<Rightarrow>
          (case index m of
             None \<Rightarrow> (Inl TypeError, m, fs)
           | Some idx \<Rightarrow>
               (case faiss_add idx [embedding] of
                  Inl e \<Rightarrow> (Inl e, m, fs)
                | Inr idx' \<Rightarrow>
                    (let m' = m\<lparr>index := Some idx',
                                 metadata_store := metadata_store m @ [metadata]\<rparr>;
                         (r, fs') = save_index ver w m' fs
                     in (r, m', fs')))))"

text \<open>
  add_texts. The length test comes first; then every text is embedded (the first failure
  ends the comprehension), the rows are packed into one array (rows of different lengths
  are refused with ValueError), the index is tested, and rows and metadata are added.
  Nothing is saved.
\<close>

fun embed_all :: "(string \<Rightarrow> py_error + real list) \<Rightarrow> string list \<Rightarrow> py_error + real list list" where
  "embed_all embed_text [] = Inr []"
| "embed_all embed_text (t # ts) =
     (case embed_text t of
        Inl e \<Rightarrow> Inl e
      | Inr v \<Rightarrow> (case embed_all embed_text ts of Inl e \<Rightarrow> Inl e | Inr vs \<Rightarrow> Inr (v # vs)))"

definition np_array :: "real list list \<Rightarrow> py_error + real list list" where
  "np_array rows =
     (case rows of
        [] \<Rightarrow> Inr []
      | r # rs \<Rightarrow> if list_all (\<lambda>x. length x = length r) rs then Inr rows else Inl ValueError)"

definition add_texts ::
  "(string \<Rightarrow> py_error + real list) \<Rightarrow> 'img index_manager \<Rightarrow> string list \<Rightarrow> 'img metadata list \<Rightarrow>
   (py_error + unit) \<times> 'img index_manager" where
  "add_texts embed_text m texts metadatas =
     (if length texts \<noteq> length metadatas then (Inl ValueError, m)
      else
        (case embed_all embed_text texts of
           Inl e \<Rightarrow> (Inl e, m)
         | Inr vs \<Rightarrow>
             (case np_array vs of
                Inl e \<Rightarrow> (Inl e, m)
              | Inr embeddings \<Rightarrow>
                  (case index m of
                     None \<Rightarrow> (Inl TypeError, m)
                   | Some idx \<Rightarrow>
                       (case faiss_add idx embeddings of
                          Inl e \<Rightarrow> (Inl e, m)
                        | Inr idx' \<Rightarrow>
                            (Inr (), m\<lparr>index := Some idx',
                                       metadata_store := metadata_store m @ metadatas\<rparr>))))))"

text \<open>
  load_index. A missing file, a file that cannot be loaded and a dictionary without the
  key index raise before any field is assigned. After that the four fields are assigned
  (metadata and dimension have defaults), and the value returned is computed from the
  new metadata last. A differing library version only prints a warning.
\<close>

definition load_index ::
  "'img index_manager \<Rightarrow> 'img files \<Rightarrow> string \<Rightarrow> (py_error + 'img activity list) \<times> 'img index_manager" where
  "load_index m fs index_pkl_path =
     (let p = with_joblib_ext index_pkl_path in
      case fs p of
        None \<Rightarrow> (Inl FileNotFoundError, m)
      | Some Unreadable \<Rightarrow> (Inl UnpicklingError, m)
      | Some (Pickled data) \<Rightarrow>
          (case f_index data of
             None \<Rightarrow> (Inl KeyError, m)
           | Some idx \<Rightarrow>
               (let m' = m\<lparr>index := Some idx,
                            metadata_store := (case f_metadata data of None \<Rightarrow> [] | Some ms \<Rightarrow> ms),
                            dim := (case f_dim data of None \<Rightarrow> dim m | Some n \<Rightarrow> n),
                            current_index_file_path := Some p\<rparr>
                in (get_activities_metadata m', m'))))"

text \<open>
  create_index: load the session when the file exists, else start an empty index of the
  manager's dimension and save it at once.
\<close>

definition create_index ::
  "string \<Rightarrow> write_outcome \<Rightarrow> 'img index_manager \<Rightarrow> 'img files \<Rightarrow> string \<Rightarrow>
   (py_error + 'img activity list) \<times> 'img index_manager \<times> 'img files" where
  "create_index ver w m fs index_pkl_path =
     (let p = with_joblib_ext index_pkl_path in
      if fs p \<noteq> None then
        (case load_index m fs p of
           (Inl e, m') \<Rightarrow> (Inl e, m', fs)
         | (Inr _, m') \<Rightarrow>
             (let m'' = m'\<lparr>current_index_file_path := Some p\<rparr>
              in (get_activities_metadata m'', m'', fs)))
      else
        (let m' = m\<lparr>index := Some (IndexFlatL2 (dim m)), metadata_store := [],
                     current_index_file_path := Some p\<rparr>
         in case save_index ver w m' fs of
              (Inl e, fs') \<Rightarrow> (Inl e, m', fs')
            | (Inr _, fs') \<Rightarrow> (get_activities_metadata m', m', fs')))"

text \<open>
  The subscript of a list by an integer, as search_by_text uses it: positions from 0 up
  to the length are read from the front, positions from -1 down to minus the length from
  the back, and every other position raises IndexError.
\<close>

definition py_getitem :: "'a list \<Rightarrow> int \<Rightarrow> py_error + 'a" where
  "py_getitem xs i =
     (if 0 \<le> i \<and> i < int (length xs) then Inr (xs ! nat i)
      else if i < 0 \<and> - int (length xs) \<le> i then Inr (xs ! nat (int (length xs) + i))
      else Inl IndexError)"

text \<open>
  search_by_text. The loop keeps a neighbour when its index is below the length of the
  metadata store; this is the only test before the store is indexed.
\<close>

fun collect_results :: "'img metadata list \<Rightarrow> int list \<Rightarrow> 'img meta_value list \<Rightarrow> py_error + 'img meta_value list" where
  "collect_results ms [] results = Inr results"
| "collect_results ms (idx # rest) results =
     (if idx < int (length ms) then
        (case py_getitem ms idx of
           Inl e \<Rightarrow> Inl e
         | Inr entry \<Rightarrow>
             (case map_of entry ''activity'' of
                None \<Rightarrow> Inl KeyError
              | Some v \<Rightarrow> collect_results ms rest (results @ [v])))
      else collect_results ms rest results)"

definition search_by_text ::
  "(real list \<Rightarrow> real list \<Rightarrow> real) \<Rightarrow> (string \<Rightarrow> py_error + real list) \<Rightarrow>
   'img index_manager \<Rightarrow> string \<Rightarrow> nat \<Rightarrow> py_error + 'img activity list" where
  "search_by_text distance embed_text m query k =
     (case index m of
        None \<Rightarrow> Inl ValueError
      | Some idx \<Rightarrow>
          (case embed_text query of
             Inl e \<Rightarrow> Inl e
           | Inr query_embedding \<Rightarrow>
               (case faiss_search distance idx query_embedding k of
                  Inl e \<Rightarrow> Inl e
                | Inr indices \<Rightarrow>
                    (case collect_results (metadata_store m) indices [] of
                       Inl e \<Rightarrow> Inl e
                     | Inr results \<Rightarrow> Activities results))))"

text \<open>
  The parallel-array invariant as a predicate: the metadata store is as long as the index
  holds vectors (no index counts as no vectors), and a session on disk that can be
  loaded holds as many metadata entries as vectors, read with load_index's default for
  a missing metadata key.
\<close>

definition vector_count :: "'img index_manager \<Rightarrow> nat" where
  "vector_count m = (case index m of None \<Rightarrow> 0 | Some idx \<Rightarrow> ntotal idx)"

definition session_in_sync :: "'img session_dict \<Rightarrow> bool" where
  "session_in_sync data =
     (case f_index data of
        None \<Rightarrow> True
      | Some idx \<Rightarrow> length (case f_metadata data of None \<Rightarrow> [] | Some ms \<Rightarrow> ms) = ntotal idx)"

definition files_in_sync :: "'img files \<Rightarrow> bool" where
  "files_in_sync fs = (\<forall>p data. fs p = Some (Pickled data) \<longrightarrow> session_in_sync data)"

definition store_inv :: "'img index_manager \<times> 'img files \<Rightarrow> bool" where
  "store_inv s = (length (metadata_store (fst s)) = vector_count (fst s) \<and> files_in_sync (snd s))"

text \<open>
  The operations of the store as commands, to speak of the states between them. A caller
  that catches the exception of a failed operation observes the state it left.
\<close>

datatype 'img store_op =
  AddText string "'img metadata" write_outcome
| AddTexts "string list" "'img metadata list"
| CreateIndex string write_outcome
| LoadIndex string
| SaveIndex write_outcome

fun apply_store_op ::
  "(string \<Rightarrow> py_error + real list) \<Rightarrow> string \<Rightarrow> 'img index_manager \<times> 'img files \<Rightarrow> 'img store_op \<Rightarrow>
   'img index_manager \<times> 'img files" where
  "apply_store_op embed_text ver (m, fs) (AddText text metadata w) =
     snd (add_text embed_text ver w m fs text metadata)"
| "apply_store_op embed_text ver (m, fs) (AddTexts texts metadatas) =
     (snd (add_texts embed_text m texts metadatas), fs)"
| "apply_store_op embed_text ver (m, fs) (CreateIndex path w) =
     snd (create_index ver w m fs path)"
| "apply_store_op embed_text ver (m, fs) (LoadIndex path) =
     (snd (load_index m fs path), fs)"
| "apply_store_op embed_text ver (m, fs) (SaveIndex w) =
     (m, snd (save_index ver w m fs))"

definition run_store_ops ::
  "(string \<Rightarrow> py_error + real list) \<Rightarrow> string \<Rightarrow> 'img index_manager \<times> 'img files \<Rightarrow> 'img store_op list \<Rightarrow>
   'img index_manager \<times> 'img files" where
  "run_store_ops embed_text ver s ops = foldl (apply_store_op embed_text ver) s ops"

section \<open>Activity capture scheduler (core/activity_manager.py)\<close>

text \<open>
  The fields of ActivityManager that the session switch and the application poller read
  and write. The two worker threads are not objects of the model: a poller loop runs
  while the stop event is clear, and start_recording clears it.
\<close>

record recording_state =
  is_active :: bool
  last_screen_time :: real
  last_app_time :: real

record 'img activity_manager =
  faiss_index_manager :: "'img index_manager"
  session_activites :: "'img activity list"
  state :: recording_state
  stop_event :: bool
  last_app_activity :: "application_activity option"

definition start_recording :: "'img activity_manager \<Rightarrow> 'img activity_manager" where
  "start_recording am =
     (if is_active (state am) then am
      else am\<lparr>state := \<lparr>is_active = True, last_screen_time = 0, last_app_time = 0\<rparr>,
              stop_event := False\<rparr>)"

definition stop_recording :: "'img activity_manager \<Rightarrow> 'img activity_manager" where
  "stop_recording am =
     (if \<not> is_active (state am) then am
      else am\<lparr>state := (state am)\<lparr>is_active := False\<rparr>, stop_event := True\<rparr>)"

text \<open>
  load_session. The handler of the try block restarts the recording when it was active
  and raises the exception again; it assigns nothing else, so whatever load_index did to
  the index manager before it raised stays.
\<close>

definition load_session ::
  "'img activity_manager \<Rightarrow> 'img files \<Rightarrow> string \<Rightarrow> (py_error + unit) \<times> 'img activity_manager" where
  "load_session am fs session_path =
     (let p = with_joblib_ext session_path;
          was_recording = is_active (state am);
          am1 = (if was_recording then stop_recording am else am)
      in case load_index (faiss_index_manager am1) fs p of
           (Inl e, m') \<Rightarrow>
             (let am2 = am1\<lparr>faiss_index_manager := m'\<rparr>
              in (Inl e, if was_recording then start_recording am2 else am2))
         | (Inr activities, m') \<Rightarrow>
             (let am2 = am1\<lparr>faiss_index_manager := m', session_activites := activities\<rparr>
              in (Inr (), if was_recording then start_recording am2 else am2)))"

text \<open>
  One pass through the body of the loop of _record_app_activity. Its inputs are the
  clock, what the application recorder returned (or raised) and what the file system
  does with the write. An exception anywhere in the body ends the loop; the fields
  assigned before it keep their new values. The switch-time anchor that the body sets
  after an insert is a field of the recorder and not of this state.
\<close>

definition app_metadata :: "application_activity \<Rightarrow> 'img metadata" where
  "app_metadata activity =
     [(''activity'', ActivityValue (Application activity)), (''type'', TypeValue ''ApplicationActivity'')]"






section \<open>Heuristic PII scanner (utils/utils.py, extract_common_pii_sequences)\<close>

text \<open>
  The scanner is six calls of re.findall after two calls of re.sub. The regular
  expressions of the source are values of a small syntax tree, and the backtracking
  matcher of Python's re module is a function on it. A string is a list of characters
  with code points below 256. A character set is given by its members or by the
  members it excludes. The tables below are those of Python on these characters: the
  letters of the sets written A-Z and a-z, the decimal digits, the characters that
  \<^verbatim>\<open>\s\<close> matches, the capitals above 127 with their lower case, and the further
  characters above 127 that count as word characters.
\<close>

datatype cset = OneOf string | NoneOf string

definition upper_letters :: string where
  "upper_letters = ''ABCDEFGHIJKLMNOPQRSTUVWXYZ''"

definition lower_letters :: string where
  "lower_letters = ''abcdefghijklmnopqrstuvwxyz''"

definition digits :: string where
  "digits = ''0123456789''"

definition whitespace :: string where
  "whitespace = [CHR '' '', CHR 0x09, CHR 0x0A, CHR 0x0B, CHR 0x0C, CHR 0x0D,
                 CHR 0x1C, CHR 0x1D, CHR 0x1E, CHR 0x1F, CHR 0x85, CHR 0xA0]"

definition high_capitals :: string where
  "high_capitals =
     [CHR 0xC0, CHR 0xC1, CHR 0xC2, CHR 0xC3, CHR 0xC4, CHR 0xC5, CHR 0xC6, CHR 0xC7,
      CHR 0xC8, CHR 0xC9, CHR 0xCA, CHR 0xCB, CHR 0xCC, CHR 0xCD, CHR 0xCE, CHR 0xCF,
      CHR 0xD0, CHR 0xD1, CHR 0xD2, CHR 0xD3, CHR 0xD4, CHR 0xD5, CHR 0xD6, CHR 0xD8,
      CHR 0xD9, CHR 0xDA, CHR 0xDB, CHR 0xDC, CHR 0xDD, CHR 0xDE]"

definition high_small_letters :: string where
  "high_small_letters =
     [CHR 0xE0, CHR 0xE1, CHR 0xE2, CHR 0xE3, CHR 0xE4, CHR 0xE5, CHR 0xE6, CHR 0xE7,
      CHR 0xE8, CHR 0xE9, CHR 0xEA, CHR 0xEB, CHR 0xEC, CHR 0xED, CHR 0xEE, CHR 0xEF,
      CHR 0xF0, CHR 0xF1, CHR 0xF2, CHR 0xF3, CHR 0xF4, CHR 0xF5, CHR 0xF6, CHR 0xF8,
      CHR 0xF9, CHR 0xFA, CHR 0xFB, CHR 0xFC, CHR 0xFD, CHR 0xFE]"

definition high_word_characters :: string where
  "high_word_characters =
     [CHR 0xAA, CHR 0xB2, CHR 0xB3, CHR 0xB5, CHR 0xB9, CHR 0xBA, CHR 0xBC, CHR 0xBD,
      CHR 0xBE, CHR 0xDF, CHR 0xFF]"

text \<open>
  str.lower, character by character: a capital becomes the small letter at the same
  place of the table, every other character stays.
\<close>

definition lower_char :: "char \<Rightarrow> char" where
  "lower_char c =
     (case map_of (zip (upper_letters @ high_capitals) (lower_letters @ high_small_letters)) c of
        None \<Rightarrow> c
      | Some l \<Rightarrow> l)"

definition lower :: "string \<Rightarrow> string" where
  "lower s = map lower_char s"

text \<open>
  Membership in a character set; with the flag (?i) a character belongs to a set when
  its lower case is the lower case of a member.
\<close>

definition in_cset :: "bool \<Rightarrow> cset \<Rightarrow> char \<Rightarrow> bool" where
  "in_cset ignorecase cs c =
     (case cs of
        OneOf s \<Rightarrow> if ignorecase then lower_char c \<in> set (lower s) else c \<in> set s
      | NoneOf s \<Rightarrow> if ignorecase then lower_char c \<notin> set (lower s) else c \<notin> set s)"

text \<open>
  The syntax of the patterns: one character of a set, the empty pattern, sequence,
  alternative, repetition with a minimum, an optional maximum and a flag that is True
  for a greedy and False for a lazy quantifier, the word boundary \<^verbatim>\<open>\b\<close>, and a capturing
  group with its number.
\<close>

datatype regex =
  Chars cset
| Eps
| Cat regex regex
| Alt regex regex
| Repeat regex nat "nat option" bool
| WordBoundary
| Group nat regex

type_synonym captures = "(nat \<times> nat \<times> nat) list"
type_synonym mstate = "nat \<times> captures"

text \<open>
  A word boundary lies between a word character (a letter or digit in Python's sense, or
  the underscore) and a character that is none, or the start or end of the text.
\<close>

definition is_word :: "char \<Rightarrow> bool" where
  "is_word c =
     (c \<in> set (upper_letters @ lower_letters @ digits @ ''_'' @
                high_capitals @ high_small_letters @ high_word_characters))"

definition word_boundary :: "string \<Rightarrow> nat \<Rightarrow> bool" where
  "word_boundary t i =
     ((0 < i \<and> i \<le> length t \<and> is_word (t ! (i - 1))) \<noteq> (i < length t \<and> is_word (t ! i)))"

text \<open>
  The matcher. A state is a position in the text and the groups captured so far, the
  latest first. For a pattern and a state, ends lists the states in which a match of
  the pattern that starts there can end, in the order in which backtracking tries them:
  the first alternative before the second, more repetitions before fewer for a greedy
  quantifier and fewer before more for a lazy one. A repetition beyond its minimum
  goes on only when the last round consumed a character. The two measures below order
  the recursive calls.
\<close>

fun rsize :: "regex \<Rightarrow> nat" where
  "rsize (Chars cs) = 0"
| "rsize Eps = 0"
| "rsize (Cat a b) = Suc (rsize a + rsize b)"
| "rsize (Alt a b) = Suc (rsize a + rsize b)"
| "rsize (Repeat r mn mx g) = Suc (rsize r)"
| "rsize WordBoundary = 0"
| "rsize (Group n r) = Suc (rsize r)"

fun rep_min :: "regex \<Rightarrow> nat" where
  "rep_min (Repeat r mn mx g) = mn"
| "rep_min _ = 0"

function ends :: "string \<Rightarrow> bool \<Rightarrow> regex \<Rightarrow> mstate \<Rightarrow> mstate list" where
  "ends t ic (Chars cs) (i, c) =
     (if i < length t \<and> in_cset ic cs (t ! i) then [(Suc i, c)] else [])"
| "ends t ic Eps (i, c) = [(i, c)]"
| "ends t ic (Cat a b) (i, c) = concat (map (ends t ic b) (ends t ic a (i, c)))"
| "ends t ic (Alt a b) (i, c) = ends t ic a (i, c) @ ends t ic b (i, c)"
| "ends t ic WordBoundary (i, c) = (if word_boundary t i then [(i, c)] else [])"
| "ends t ic (Group n r) (i, c) = map (\<lambda>(j, c'). (j, (n, i, j) # c')) (ends t ic r (i, c))"
| "ends t ic (Repeat r mn mx g) (i, c) =
     (if 0 < mn then
        concat (map (ends t ic (Repeat r (mn - 1) (map_option (\<lambda>m. m - 1) mx) g)) (ends t ic r (i, c)))
      else if mx = Some 0 then [(i, c)]
      else
        (let more = concat (map (\<lambda>(j, c'). if i < j \<and> j \<le> length t
                                   then ends t ic (Repeat r 0 (map_option (\<lambda>m. m - 1) mx) g) (j, c')
                                   else [])
                         (ends t ic r (i, c)))
         in if g then more @ [(i, c)] else (i, c) # more))"
  by pat_completeness auto
termination
  by (relation "(\<lambda>(t, ic, r, s). rsize r) <*mlex*> (\<lambda>(t, ic, r, s). rep_min r) <*mlex*>
                measure (\<lambda>(t, ic, r, s). length t - fst s)")
     (auto simp: wf_mlex mlex_less mlex_leq)

text \<open>
  The scan shared by re.sub and re.findall: the leftmost match from each position, the
  first way to match there, and on from the end of that match (one character further
  after an empty match). Each match is its start, its end and its captured groups.
\<close>

function scan :: "string \<Rightarrow> bool \<Rightarrow> regex \<Rightarrow> nat \<Rightarrow> (nat \<times> nat \<times> captures) list" where
  "scan t ic r s =
     (if length t < s then []
      else
        (case ends t ic r (s, []) of
           [] \<Rightarrow> scan t ic r (Suc s)
         | (e, c) # _ \<Rightarrow> (s, e, c) # scan t ic r (if s < e then e else Suc s)))"
  by pat_completeness auto
termination
  by (relation "measure (\<lambda>(t, ic, r, s). Suc (length t) - s)") auto

definition slice :: "string \<Rightarrow> nat \<Rightarrow> nat \<Rightarrow> string" where
  "slice t s e = take (e - s) (drop s t)"

definition group_text :: "string \<Rightarrow> captures \<Rightarrow> nat \<Rightarrow> string" where
  "group_text t c n = (case map_of c n of None \<Rightarrow> [] | Some (s, e) \<Rightarrow> slice t s e)"

text \<open>
  re.findall returns the text of the whole match for a pattern without groups and the
  text of group 1 for a pattern with one group; for more groups it returns tuples, of
  which the scanner keeps the first component, again group 1. re.sub copies the text
  between the matches and puts the replacement in place of each match.
\<close>

fun ngroups :: "regex \<Rightarrow> nat" where
  "ngroups (Group n r) = Suc (ngroups r)"
| "ngroups (Cat a b) = ngroups a + ngroups b"
| "ngroups (Alt a b) = ngroups a + ngroups b"
| "ngroups (Repeat r mn mx g) = ngroups r"
| "ngroups _ = 0"

fun sub_build :: "string \<Rightarrow> (string \<Rightarrow> captures \<Rightarrow> string) \<Rightarrow> nat \<Rightarrow> (nat \<times> nat \<times> captures) list \<Rightarrow> string" where
  "sub_build t repl pos [] = drop pos t"
| "sub_build t repl pos ((s, e, c) # ms) = slice t pos s @ repl t c @ sub_build t repl e ms"

definition re_sub :: "regex \<Rightarrow> bool \<Rightarrow> (string \<Rightarrow> captures \<Rightarrow> string) \<Rightarrow> string \<Rightarrow> string" where
  "re_sub r ic repl t = sub_build t repl 0 (scan t ic r 0)"

definition re_findall :: "regex \<Rightarrow> bool \<Rightarrow> string \<Rightarrow> string list" where
  "re_findall r ic t =
     map (\<lambda>(s, e, c). if ngroups r = 0 then slice t s e else group_text t c 1) (scan t ic r 0)"

text \<open>
  Shorthands for writing the patterns of the source.
\<close>

definition seq :: "regex list \<Rightarrow> regex" where
  "seq rs = foldr Cat rs Eps"

definition lit :: "char \<Rightarrow> regex" where
  "lit c = Chars (OneOf [c])"

definition str :: "string \<Rightarrow> regex" where
  "str s = seq (map lit s)"

definition one_or_more :: "regex \<Rightarrow> regex" where
  "one_or_more r = Repeat r 1 None True"

definition zero_or_more :: "regex \<Rightarrow> regex" where
  "zero_or_more r = Repeat r 0 None True"

definition lazy_zero_or_more :: "regex \<Rightarrow> regex" where
  "lazy_zero_or_more r = Repeat r 0 None False"

definition optional :: "regex \<Rightarrow> regex" where
  "optional r = Repeat r 0 (Some 1) True"

definition between :: "nat \<Rightarrow> nat \<Rightarrow> regex \<Rightarrow> regex" where
  "between mn mx r = Repeat r mn (Some mx) True"

definition at_least :: "nat \<Rightarrow> regex \<Rightarrow> regex" where
  "at_least mn r = Repeat r mn None True"

definition digit :: regex where "digit = Chars (OneOf digits)"
definition space :: regex where "space = Chars (OneOf whitespace)"
definition letter :: regex where "letter = Chars (OneOf (lower_letters @ upper_letters))"
definition separator :: regex where "separator = Chars (OneOf (''-.'' @ whitespace))"

text \<open>
  The two patterns of the cleaning step,
  \<^verbatim>\<open>\s+@\s+\<close> and \<^verbatim>\<open>@\s+([a-zA-Z]+)\s+([a-zA-Z]+)\<close>,
  and the six patterns of the scan in the order of the source: e-mail address, phone
  number, card number, three or four digits, social security number, password
  assignment (the only one with a group, and with the flag (?i)).
\<close>

definition spaces_around_at :: regex where
  "spaces_around_at = seq [one_or_more space, lit CHR ''@'', one_or_more space]"

definition domain_spaces :: regex where
  "domain_spaces = seq [lit CHR ''@'', one_or_more space, Group 1 (one_or_more letter), one_or_more space, Group 2 (one_or_more letter)]"

definition email_pattern :: regex where
  "email_pattern =
     seq [WordBoundary,
          one_or_more (Chars (OneOf (upper_letters @ lower_letters @ digits @ ''._%+-''))),
          lit CHR ''@'',
          one_or_more (Chars (OneOf (upper_letters @ lower_letters @ digits @ ''.-''))),
          lit CHR ''.'',
          at_least 2 (Chars (OneOf (upper_letters @ lower_letters))),
          WordBoundary]"

definition phone_pattern :: regex where
  "phone_pattern =
     seq [WordBoundary,
          optional (seq [optional (lit CHR ''+''), between 1 3 digit, optional separator]),
          optional (seq [optional (lit CHR ''(''), between 2 4 digit, optional (lit CHR '')''), optional separator]),
          between 3 4 digit, optional separator, between 3 4 digit,
          WordBoundary]"

definition card_pattern :: regex where
  "card_pattern =
     seq [WordBoundary, between 13 16 (seq [digit, lazy_zero_or_more (Chars (OneOf '' -''))]), WordBoundary]"

definition cvv_pattern :: regex where
  "cvv_pattern = seq [WordBoundary, between 3 4 digit, WordBoundary]"

definition ssn_pattern :: regex where
  "ssn_pattern =
     seq [WordBoundary, between 3 3 digit, lit CHR ''-'', between 2 2 digit, lit CHR ''-'',
          between 4 4 digit, WordBoundary]"

definition password_pattern :: regex where
  "password_pattern =
     seq [WordBoundary, Group 1 (Alt (str ''password'') (str ''pwd'')), zero_or_more space,
          Chars (OneOf '':=''), zero_or_more space, at_least 4 (Chars (NoneOf whitespace)), WordBoundary]"

text \<open>
  The cleaning step (the two substitutions, in this order) and the scanner.
\<close>

definition pre_clean :: "string \<Rightarrow> string" where
  "pre_clean text =
     re_sub domain_spaces False (\<lambda>t c. ''@'' @ group_text t c 1 @ ''.'' @ group_text t c 2)
       (re_sub spaces_around_at False (\<lambda>t c. ''@'') text)"

definition patterns :: "(regex \<times> bool) list" where
  "patterns = [(email_pattern, False), (phone_pattern, False), (card_pattern, False),
               (cvv_pattern, False), (ssn_pattern, False), (password_pattern, True)]"

definition extract_common_pii_sequences :: "string \<Rightarrow> string list" where
  "extract_common_pii_sequences text =
     (let text = pre_clean text
      in concat (map (\<lambda>(pattern, ic). re_findall pattern ic text) patterns))"

section \<open>Region redactor (utils/utils.py, blur_regions_with_bboxs; services/activity_recording.py)\<close>

text \<open>
  An image of the imaging library: its size and the pixel at each position. A pixel has
  one band (mode L), three (RGB) or four (RGBA). Positions outside the size carry no
  meaning; every operation below tests the bounds before it reads or writes.
\<close>

datatype pixel = L nat | RGB nat nat nat | RGBA nat nat nat nat

record image =
  width :: int
  height :: int
  pixels :: "int \<times> int \<Rightarrow> pixel"

definition inside :: "image \<Rightarrow> int \<times> int \<Rightarrow> bool" where
  "inside im p = (0 \<le> fst p \<and> fst p < width im \<and> 0 \<le> snd p \<and> snd p < height im)"

text \<open>
  convert("RGBA") gives a new image: an opaque alpha band is added to a pixel of three
  bands or of one.
\<close>

definition to_rgba :: "pixel \<Rightarrow> pixel" where
  "to_rgba px = (case px of L v \<Rightarrow> RGBA v v v 255 | RGB r g b \<Rightarrow> RGBA r g b 255 | RGBA r g b a \<Rightarrow> RGBA r g b a)"

definition convert_RGBA :: "image \<Rightarrow> image" where
  "convert_RGBA im = im\<lparr>pixels := (\<lambda>p. to_rgba (pixels im p))\<rparr>"

text \<open>
  crop gives a new image of the size of the box; what the box takes from outside the
  image is transparent black. The Gaussian blur is a parameter of the model: a filter
  keeps the size and computes each pixel from the image filtered. The mask is a new
  image of mode L, 0 everywhere, on which the polygon is drawn with 255; which pixels
  the drawing of a polygon sets is the second parameter of the model. paste writes into
  the image it is called on: the pixel of the pasted image wherever the mask is 255 and
  the position lies in both images.
\<close>

definition crop :: "image \<Rightarrow> int \<times> int \<times> int \<times> int \<Rightarrow> image" where
  "crop im box =
     (case box of (x0, y0, x1, y1) \<Rightarrow>
        \<lparr>width = x1 - x0, height = y1 - y0,
         pixels = (\<lambda>(x, y). if inside im (x + x0, y + y0) then pixels im (x + x0, y + y0)
                            else RGBA 0 0 0 0)\<rparr>)"

definition gaussian_filter :: "(nat \<Rightarrow> image \<Rightarrow> int \<times> int \<Rightarrow> pixel) \<Rightarrow> nat \<Rightarrow> image \<Rightarrow> image" where
  "gaussian_filter blur radius im = im\<lparr>pixels := blur radius im\<rparr>"

definition polygon_mask :: "((int \<times> int) list \<Rightarrow> int \<times> int \<Rightarrow> bool) \<Rightarrow> int \<Rightarrow> int \<Rightarrow> (int \<times> int) list \<Rightarrow> image" where
  "polygon_mask fill w h points =
     \<lparr>width = w, height = h,
      pixels = (\<lambda>p. if 0 \<le> fst p \<and> fst p < w \<and> 0 \<le> snd p \<and> snd p < h \<and> fill points p
                    then L 255 else L 0)\<rparr>"

definition paste :: "image \<Rightarrow> image \<Rightarrow> int \<times> int \<Rightarrow> image \<Rightarrow> image" where
  "paste im src box region_mask =
     im\<lparr>pixels :=
          (\<lambda>p. let q = (fst p - fst box, snd p - snd box)
               in if inside im p \<and> inside src q \<and> pixels region_mask q = L 255 then pixels src q
                  else pixels im p)\<rparr>"

text \<open>
  int() cuts a number towards zero; min and max of a list that is not empty.
\<close>

definition py_int :: "real \<Rightarrow> int" where
  "py_int x = (if 0 \<le> x then \<lfloor>x\<rfloor> else \<lceil>x\<rceil>)"

definition py_min :: "int list \<Rightarrow> int" where
  "py_min xs = foldl min (hd xs) (tl xs)"

definition py_max :: "int list \<Rightarrow> int" where
  "py_max xs = foldl max (hd xs) (tl xs)"

text \<open>
  One pass through the loop of blur_regions_with_bboxs. A point is a pair of numbers. A
  box with no point makes min() raise; a box of no width or no height is skipped.
\<close>

definition blur_one ::
  "(nat \<Rightarrow> image \<Rightarrow> int \<times> int \<Rightarrow> pixel) \<Rightarrow> ((int \<times> int) list \<Rightarrow> int \<times> int \<Rightarrow> bool) \<Rightarrow> nat \<Rightarrow>
   image \<Rightarrow> (real \<times> real) list \<Rightarrow> py_error option \<times> image" where
  "blur_one blur fill blur_radius img bbox =
     (let xs = map (\<lambda>point. py_int (fst point)) bbox;
          ys = map (\<lambda>point. py_int (snd point)) bbox
      in if bbox = [] then (Some ValueError, img)
         else
           (let min_x = py_min xs; max_x = py_max xs;
                min_y = py_min ys; max_y = py_max ys
            in if max_x \<le> min_x \<or> max_y \<le> min_y then (None, img)
               else
                 (let region = crop img (min_x, min_y, max_x, max_y);
                      blurred_region = gaussian_filter blur blur_radius region;
                      polygon_points = map (\<lambda>(x, y). (x - min_x, y - min_y)) (zip xs ys);
                      region_mask = polygon_mask fill (width blurred_region) (height blurred_region) polygon_points
                  in (None, paste img blurred_region (min_x, min_y) region_mask))))"

fun blur_loop ::
  "(nat \<Rightarrow> image \<Rightarrow> int \<times> int \<Rightarrow> pixel) \<Rightarrow> ((int \<times> int) list \<Rightarrow> int \<times> int \<Rightarrow> bool) \<Rightarrow> nat \<Rightarrow>
   image \<Rightarrow> (real \<times> real) list list \<Rightarrow> py_error option \<times> image" where
  "blur_loop blur fill blur_radius img [] = (None, img)"
| "blur_loop blur fill blur_radius img (bbox # bboxes) =
     (case blur_one blur fill blur_radius img bbox of
        (Some e, img') \<Rightarrow> (Some e, img')
      | (None, img') \<Rightarrow> blur_loop blur fill blur_radius img' bboxes)"

text \<open>
  blur_regions_with_bboxs on a store of image objects, an object being named by its
  index in the store. The converted copy is a new object at the end of the store; the
  loop writes to this object only; the object returned is the copy.
\<close>

definition blur_regions_with_bboxs ::
  "(nat \<Rightarrow> image \<Rightarrow> int \<times> int \<Rightarrow> pixel) \<Rightarrow> ((int \<times> int) list \<Rightarrow> int \<times> int \<Rightarrow> bool) \<Rightarrow>
   image list \<Rightarrow> nat \<Rightarrow> (real \<times> real) list list \<Rightarrow> nat \<Rightarrow> (py_error + nat) \<times> image list" where
  "blur_regions_with_bboxs blur fill heap pil_img bboxes blur_radius =
     (let img = length heap;
          heap1 = heap @ [convert_RGBA (heap ! pil_img)]
      in case blur_loop blur fill blur_radius (heap1 ! img) bboxes of
           (Some e, im) \<Rightarrow> (Inl e, heap1[img := im])
         | (None, im) \<Rightarrow> (Inr img, heap1[img := im]))"

text \<open>
  An OCR chunk (schemas/ocr_schemas.py), and lines 113 to 119 of record_activity: the box
  of a chunk is collected once for every sequence that is a substring of the chunk's
  text in lower case, and the screenshot is blurred in the boxes collected. The type of
  the characters of a text and the function str.lower are parameters here, so that what
  follows holds for every text and not only for the characters of the tables above.
\<close>

record 'c text_ocr_chunk =
  ocr_text :: "'c list"
  text_bounding_box :: "(real \<times> real) list"
  ocr_confidence_score :: real

definition pii_extracted_bounding_boxes ::
  "('c list \<Rightarrow> 'c list) \<Rightarrow> 'c text_ocr_chunk list \<Rightarrow> 'c list list \<Rightarrow> (real \<times> real) list list" where
  "pii_extracted_bounding_boxes str_lower text_ocr_chunks pii_sequences =
     concat (map (\<lambda>chunk.
        concat (map (\<lambda>sequence. if sublist sequence (str_lower (ocr_text chunk))
                                 then [text_bounding_box chunk] else []) pii_sequences))
        text_ocr_chunks)"

definition redact_screenshot ::
  "('c list \<Rightarrow> 'c list) \<Rightarrow>
   (nat \<Rightarrow> image \<Rightarrow> int \<times> int \<Rightarrow> pixel) \<Rightarrow> ((int \<times> int) list \<Rightarrow> int \<times> int \<Rightarrow> bool) \<Rightarrow>
   image list \<Rightarrow> nat \<Rightarrow> 'c text_ocr_chunk list \<Rightarrow> 'c list list \<Rightarrow> 'c list list \<Rightarrow>
   (py_error + nat) \<times> image list" where
  "redact_screenshot str_lower blur fill heap screenshot text_ocr_chunks
       bilstm_crf_pii_sequences common_pii_sequneces =
     blur_regions_with_bboxs blur fill heap screenshot
       (pii_extracted_bounding_boxes str_lower text_ocr_chunks
          (bilstm_crf_pii_sequences @ common_pii_sequneces)) 8"

text \<open>
  The words of the claim. A text contains a fragment as a case-insensitive substring
  when the lower case of the fragment is a substring of the lower case of the text. A
  position lies in the polygon of a box when the mask drawn for this box selects it:
  it lies in the rectangle around the points cut to integers, and the drawing of the
  polygon, moved to the corner of the rectangle, sets it.
\<close>

definition contains_ci :: "('c list \<Rightarrow> 'c list) \<Rightarrow> 'c list \<Rightarrow> 'c list \<Rightarrow> bool" where
  "contains_ci str_lower text_of_chunk fragment =
     sublist (str_lower fragment) (str_lower text_of_chunk)"

definition in_polygon :: "((int \<times> int) list \<Rightarrow> int \<times> int \<Rightarrow> bool) \<Rightarrow> (real \<times> real) list \<Rightarrow> int \<times> int \<Rightarrow> bool" where
  "in_polygon fill bbox p =
     (let xs = map (\<lambda>point. py_int (fst point)) bbox;
          ys = map (\<lambda>point. py_int (snd point)) bbox;
          min_x = py_min xs; max_x = py_max xs;
          min_y = py_min ys; max_y = py_max ys
      in bbox \<noteq> [] \<and> min_x \<le> fst p \<and> fst p < max_x \<and> min_y \<le> snd p \<and> snd p < max_y \<and>
         fill (map (\<lambda>(x, y). (x - min_x, y - min_y)) (zip xs ys)) (fst p - min_x, snd p - min_y))"

section \<open>Example inputs\<close>

text \<open>
  Concrete inputs on which the operations are evaluated below: an embedder of dimension
  one, an application activity for a window, index managers with one session loaded, an
  activity manager that is recording, and a session file whose only metadata entry lacks
  the key activity.
\<close>

definition unit_embedder :: "string \<Rightarrow> py_error + real list" where
  "unit_embedder text = Inr [of_nat (length text)]"

definition window :: "string \<Rightarrow> string \<Rightarrow> application_activity" where
  "window name title =
     \<lparr>app_name = name, window_title = title, exe_path = [], cmd_command = [],
      duration_seconds = 0, app_keywords = title, app_activity_timestamp = 0\<rparr>"

definition one_entry_manager :: "unit index_manager" where
  "one_entry_manager =
     \<lparr>index = Some \<lparr>idx_d = 1, idx_vectors = [[0]]\<rparr>,
      metadata_store = [app_metadata (window ''editor'' ''notes'')],
      dim = 1, current_index_file_path = Some ''s.joblib''\<rparr>"

definition empty_session_manager :: "unit index_manager" where
  "empty_session_manager =
     \<lparr>index = Some (IndexFlatL2 1), metadata_store = [], dim = 1,
      current_index_file_path = Some ''s.joblib''\<rparr>"

definition example_ops :: "unit store_op list" where
  "example_ops =
     [CreateIndex ''s'' WriteOk,
      AddText ''ab'' (app_metadata (window ''editor'' ''notes'')) WriteOk,
      AddText ''abc'' (app_metadata (window ''editor'' ''todo'')) DumpFails]"

definition recording_manager :: "unit activity_manager" where
  "recording_manager =
     \<lparr>faiss_index_manager = one_entry_manager,
      session_activites = [Application (window ''editor'' ''notes'')],
      state = \<lparr>is_active = True, last_screen_time = 5, last_app_time = 7\<rparr>,
      stop_event = False,
      last_app_activity = Some (window ''editor'' ''notes'')\<rparr>"

definition session_without_activity_key :: "unit disk_file" where
  "session_without_activity_key =
     Pickled \<lparr>f_index = Some \<lparr>idx_d = 1, idx_vectors = [[3]]\<rparr>,
              f_metadata = Some [[(''type'', TypeValue ''ApplicationActivity'')]],
              f_dim = Some 1, f_faiss_version = Some ''1.8''\<rparr>"



text \<open>
  An image of four by four pixels of one colour, a blur that paints black, a drawing
  that sets every position, a fragment with an accented letter, and two chunks of which
  the first holds this name in capitals.
\<close>

definition flat_image :: image where
  "flat_image = \<lparr>width = 4, height = 4, pixels = (\<lambda>p. RGB 10 20 30)\<rparr>"

definition black_blur :: "nat \<Rightarrow> image \<Rightarrow> int \<times> int \<Rightarrow> pixel" where
  "black_blur radius im p = RGBA 0 0 0 255"

definition fill_all :: "(int \<times> int) list \<Rightarrow> int \<times> int \<Rightarrow> bool" where
  "fill_all points p = True"

definition jose :: string where
  "jose = [CHR ''j'', CHR ''o'', CHR ''s'', CHR 0xE9]"

definition two_chunks :: "char text_ocr_chunk list" where
  "two_chunks =
     [\<lparr>ocr_text = [CHR ''J'', CHR ''O'', CHR ''S'', CHR 0xC9, CHR '' '', CHR ''S'', CHR ''m'',
                  CHR ''i'', CHR ''t'', CHR ''h''],
       text_bounding_box = [(0, 0), (2, 0), (2, 2), (0, 2)],
       ocr_confidence_score = 1\<rparr>,
      \<lparr>ocr_text = ''hello'', text_bounding_box = [(2, 2), (4, 2), (4, 4), (2, 4)],
       ocr_confidence_score = 1\<rparr>]"

definition session_without_metadata :: "unit disk_file" where
  "session_without_metadata =
     Pickled \<lparr>f_index = Some \<lparr>idx_d = 1, idx_vectors = [[3]]\<rparr>,
              f_metadata = None, f_dim = Some 1, f_faiss_version = Some ''1.8''\<rparr>"





section \<open>Theorems about the merger\<close>

text \<open>
  C7. The reference case of the merger: the four tokens John/B-FIRSTNAME, ##son/I-FIRSTNAME,
  is/O, 30/B-AGE with the non-sensitive labels {O} give exactly the fragments Johnson and 30,
  in this order.
\<close>

theorem merger_reference_case:
  "extract_sensitive_sequences
     [tok ''John'' ''B-FIRSTNAME'', tok ''##son'' ''I-FIRSTNAME'', tok ''is'' ''O'', tok ''30'' ''B-AGE'']
     only_O
   = [''Johnson'', ''30'']"
  by (simp add: extract_sensitive_sequences_def merger_flush_def merger_step_def merger_init_def
      tok_def only_O_def split_dash_def)

text \<open>
  C8. The claim: a token whose label is not non-sensitive and has no recognizable B-/I-
  prefix closes and emits the open fragment. The code does so for a label without a dash
  (lemma merger_step_no_dash_closes below). A label with a dash and another prefix takes
  no branch of the loop body and leaves the state as it is (lemma
  merger_step_other_prefix_unchanged): with the tokens John/B-NAME, x/S-NAME, son/I-NAME
  the fragment opened by John is still open when son arrives, and the single fragment
  Johnson comes out instead of the two fragments John and son.
\<close>

theorem merger_other_prefix_keeps_fragment_open:
  "extract_sensitive_sequences
     [tok ''John'' ''B-NAME'', tok ''x'' ''S-NAME'', tok ''son'' ''I-NAME''] only_O
   = [''Johnson'']"
  by (simp add: extract_sensitive_sequences_def merger_flush_def merger_step_def merger_init_def
      tok_def only_O_def split_dash_def)

lemma merger_step_no_dash_closes:
  assumes "non_sensitive_labels (entity_label entity) = None"
    and "CHR ''-'' \<notin> set (entity_label entity)"
  shows "merger_step non_sensitive_labels st entity =
           (if current_sequence st \<noteq> [] then
              st\<lparr>sequences := sequences st @ [concat (current_sequence st)],
                 current_sequence := [], current_label_type := None\<rparr>
            else st)"
  using assms by (simp add: merger_step_def)

lemma merger_step_other_prefix_unchanged:
  assumes "non_sensitive_labels (entity_label entity) = None"
    and "CHR ''-'' \<in> set (entity_label entity)"
    and "fst (split_dash (entity_label entity)) \<noteq> ''B''"
    and "fst (split_dash (entity_label entity)) \<noteq> ''I''"
  shows "merger_step non_sensitive_labels st entity = st"
  using assms by (cases "split_dash (entity_label entity)") (simp add: merger_step_def Let_def)

section \<open>Theorems about the vector index store\<close>

lemma faiss_add_single:
  "faiss_add idx [v] = (if length v = idx_d idx then Inr (idx\<lparr>idx_vectors := idx_vectors idx @ [v]\<rparr>) else Inl AssertionError)"
  by (simp add: faiss_add_def)

lemma faiss_add_Inr:
  "faiss_add idx rows = Inr idx' \<Longrightarrow> idx' = idx\<lparr>idx_vectors := idx_vectors idx @ rows\<rparr>"
  by (auto simp: faiss_add_def split: if_splits)

lemma files_in_sync_upd_Unreadable: "files_in_sync fs \<Longrightarrow> files_in_sync (fs(p \<mapsto> Unreadable))"
  by (auto simp: files_in_sync_def)

lemma files_in_sync_upd_Pickled:
  "files_in_sync fs \<Longrightarrow> session_in_sync data \<Longrightarrow> files_in_sync (fs(p \<mapsto> Pickled data))"
  by (auto simp: files_in_sync_def)

lemma save_index_inv:
  "store_inv (m, fs) \<Longrightarrow> store_inv (m, snd (save_index ver w m fs))"
  by (auto simp: store_inv_def save_index_def vector_count_def session_in_sync_def
      intro!: files_in_sync_upd_Unreadable files_in_sync_upd_Pickled
      split: option.splits write_outcome.splits)

lemma add_text_inv:
  "store_inv (m, fs) \<Longrightarrow> store_inv (snd (add_text embed_text ver w m fs text metadata))"
  by (auto simp: store_inv_def add_text_def save_index_def vector_count_def session_in_sync_def
      ntotal_def faiss_add_single Let_def
      intro!: files_in_sync_upd_Unreadable files_in_sync_upd_Pickled
      split: option.splits write_outcome.splits sum.splits if_splits)

lemma embed_all_length: "embed_all embed_text texts = Inr vs \<Longrightarrow> length vs = length texts"
  by (induction texts arbitrary: vs) (auto split: sum.splits)

lemma np_array_Inr: "np_array rows = Inr a \<Longrightarrow> a = rows"
  by (auto simp: np_array_def split: list.splits if_splits)

lemma add_texts_cases:
  "add_texts embed_text m texts metadatas = (r, m') \<Longrightarrow>
     (case r of
        Inl e \<Rightarrow> m' = m
      | Inr _ \<Rightarrow>
          length texts = length metadatas \<and>
          (\<exists>idx vs. index m = Some idx \<and> length vs = length metadatas \<and>
             index m' = Some (idx\<lparr>idx_vectors := idx_vectors idx @ vs\<rparr>)) \<and>
          metadata_store m' = metadata_store m @ metadatas \<and>
          dim m' = dim m \<and> current_index_file_path m' = current_index_file_path m)"
  by (auto simp: add_texts_def split: if_splits sum.splits option.splits
      dest!: embed_all_length np_array_Inr faiss_add_Inr)

lemma add_texts_inv:
  "store_inv (m, fs) \<Longrightarrow> store_inv (snd (add_texts embed_text m texts metadatas), fs)"
proof -
  assume inv: "store_inv (m, fs)"
  obtain r m' where eq: "add_texts embed_text m texts metadatas = (r, m')"
    by (cases "add_texts embed_text m texts metadatas")
  show ?thesis
  proof (cases r)
    case (Inl e)
    with add_texts_cases [OF eq] inv eq show ?thesis by simp
  next
    case (Inr u)
    with add_texts_cases [OF eq] inv eq show ?thesis
      by (auto simp: store_inv_def vector_count_def ntotal_def)
  qed
qed

lemma files_in_syncD:
  "files_in_sync fs \<Longrightarrow> fs p = Some (Pickled data) \<Longrightarrow> session_in_sync data"
  by (simp add: files_in_sync_def)

lemma load_index_inv:
  "store_inv (m, fs) \<Longrightarrow> store_inv (snd (load_index m fs path), fs)"
proof -
  assume inv: "store_inv (m, fs)"
  show ?thesis
  proof (cases "fs (with_joblib_ext path)")
    case None
    with inv show ?thesis by (simp add: load_index_def)
  next
    case (Some f)
    show ?thesis
    proof (cases f)
      case Unreadable
      with Some inv show ?thesis by (simp add: load_index_def)
    next
      case (Pickled data)
      with Some inv have "session_in_sync data"
        by (auto simp: store_inv_def dest: files_in_syncD)
      with Some Pickled inv show ?thesis
        by (auto simp: load_index_def store_inv_def vector_count_def session_in_sync_def Let_def
            split: option.splits)
    qed
  qed
qed

lemma create_index_inv:
  "store_inv (m, fs) \<Longrightarrow> store_inv (snd (create_index ver w m fs path))"
proof -
  assume inv: "store_inv (m, fs)"
  let ?p = "with_joblib_ext path"
  show ?thesis
  proof (cases "fs ?p")
    case None
    let ?m' = "m\<lparr>index := Some (IndexFlatL2 (dim m)), metadata_store := [],
                     current_index_file_path := Some ?p\<rparr>"
    have "store_inv (?m', fs)"
      using inv by (simp add: store_inv_def vector_count_def ntotal_def IndexFlatL2_def)
    from save_index_inv [OF this, of ver w] None show ?thesis
      by (auto simp: create_index_def Let_def split: prod.splits sum.splits)
  next
    case (Some f)
    have "store_inv (snd (load_index m fs ?p), fs)" using inv by (rule load_index_inv)
    then show ?thesis using Some
      by (auto simp: create_index_def Let_def store_inv_def vector_count_def
          split: prod.splits sum.splits)
  qed
qed

lemma apply_store_op_inv:
  "store_inv s \<Longrightarrow> store_inv (apply_store_op embed_text ver s op)"
  by (cases s; cases op)
     (simp_all add: add_text_inv add_texts_inv create_index_inv load_index_inv save_index_inv)

lemma run_store_ops_inv:
  "store_inv s \<Longrightarrow> store_inv (run_store_ops embed_text ver s ops)"
  unfolding run_store_ops_def
  by (induction ops arbitrary: s) (simp_all add: apply_store_op_inv)

lemma new_index_manager_inv: "files_in_sync fs \<Longrightarrow> store_inv (new_index_manager n, fs)"
  by (simp add: store_inv_def new_index_manager_def vector_count_def)

lemma add_text_success:
  "add_text embed_text ver w m fs text metadata = (Inr u, m', fs') \<Longrightarrow>
     (\<exists>idx v. index m = Some idx \<and> embed_text text = Inr v \<and>
        index m' = Some (idx\<lparr>idx_vectors := idx_vectors idx @ [v]\<rparr>)) \<and>
     metadata_store m' = metadata_store m @ [metadata]"
  by (auto simp: add_text_def faiss_add_single Let_def
      split: sum.splits option.splits if_splits prod.splits)

lemma add_texts_mismatch:
  "length texts \<noteq> length metadatas \<Longrightarrow> add_texts embed_text m texts metadatas = (Inl ValueError, m)"
  by (simp add: add_texts_def)

lemmas store_eval =
  run_store_ops_def new_index_manager_def create_index_def with_joblib_ext_def endswith_def
  save_index_def Let_def IndexFlatL2_def get_activities_metadata_def add_text_def
  unit_embedder_def faiss_add_def example_ops_def app_metadata_def window_def
  vector_count_def ntotal_def

text \<open>
  C1. The claim: between any two operations of the store the metadata store is as long
  as the index holds vectors. load_index reads the metadata with the default [] for a
  missing key: loading a session file that holds one vector and no metadata succeeds
  and leaves one vector and no metadata entry in memory.
\<close>

theorem load_without_metadata_counterexample:
  "fst (load_index (new_index_manager 1) [''t.joblib'' \<mapsto> session_without_metadata] ''t'') = Inr [] \<and>
   vector_count (snd (load_index (new_index_manager 1) [''t.joblib'' \<mapsto> session_without_metadata] ''t'')) = 1 \<and>
   metadata_store (snd (load_index (new_index_manager 1) [''t.joblib'' \<mapsto> session_without_metadata] ''t'')) = []"
  by (simp add: load_index_def new_index_manager_def session_without_metadata_def
      with_joblib_ext_def endswith_def Let_def get_activities_metadata_def vector_count_def
      ntotal_def)

text \<open>
  C1, as the code has it. Let every session file that can be loaded hold as many
  metadata entries as vectors, as every file that the store writes does. Then in every
  state reached from a new index manager by any sequence of store operations, whatever
  their outcome, the metadata store is as long as the index holds vectors and the
  sessions on disk are still in step. In such a state an add_text leaves
  the invariant in place whether it succeeds or fails, a successful add_text appends
  exactly one vector and its metadata entry, a successful add_texts appends as many
  vectors as metadata entries, a failed add_texts changes nothing, and a length mismatch
  between texts and metadatas raises ValueError with nothing changed.
\<close>

theorem parallel_array_invariant:
  assumes "files_in_sync fs0"
    and "run_store_ops embed_text ver (new_index_manager n, fs0) ops = (m, fs)"
  shows "length (metadata_store m) = vector_count m
     \<and> files_in_sync fs
     \<and> (\<forall>w text md. store_inv (snd (add_text embed_text ver w m fs text md)))
     \<and> (\<forall>w text md m' fs'. add_text embed_text ver w m fs text md = (Inr (), m', fs') \<longrightarrow>
            vector_count m' = vector_count m + 1 \<and> metadata_store m' = metadata_store m @ [md])
     \<and> (\<forall>texts mds m'. add_texts embed_text m texts mds = (Inr (), m') \<longrightarrow>
            vector_count m' = vector_count m + length mds \<and>
            metadata_store m' = metadata_store m @ mds)
     \<and> (\<forall>texts mds e m'. add_texts embed_text m texts mds = (Inl e, m') \<longrightarrow> m' = m)
     \<and> (\<forall>texts mds. length texts \<noteq> length mds \<longrightarrow>
            add_texts embed_text m texts mds = (Inl ValueError, m))"
proof -
  have inv: "store_inv (m, fs)"
    using run_store_ops_inv [OF new_index_manager_inv [OF assms(1)], of embed_text ver n ops]
    by (simp add: assms(2))
  have a: "length (metadata_store m) = vector_count m" "files_in_sync fs"
    using inv by (simp_all add: store_inv_def)
  have b: "\<forall>w text md. store_inv (snd (add_text embed_text ver w m fs text md))"
    using inv by (simp add: add_text_inv)
  have c: "\<forall>w text md m' fs'. add_text embed_text ver w m fs text md = (Inr (), m', fs') \<longrightarrow>
            vector_count m' = vector_count m + 1 \<and> metadata_store m' = metadata_store m @ [md]"
    by (auto dest!: add_text_success simp: vector_count_def ntotal_def)
  have d: "\<forall>texts mds m'. add_texts embed_text m texts mds = (Inr (), m') \<longrightarrow>
            vector_count m' = vector_count m + length mds \<and>
            metadata_store m' = metadata_store m @ mds"
    by (auto dest!: add_texts_cases simp: vector_count_def ntotal_def)
  have e: "\<forall>texts mds e m'. add_texts embed_text m texts mds = (Inl e, m') \<longrightarrow> m' = m"
    by (auto dest!: add_texts_cases)
  have f: "\<forall>texts mds. length texts \<noteq> length mds \<longrightarrow>
            add_texts embed_text m texts mds = (Inl ValueError, m)"
    by (simp add: add_texts_mismatch)
  from a b c d e f show ?thesis by blast
qed

text \<open>
  The invariant at a concrete run: a session is created, one activity is added, and a
  second one is added while the dump to disk fails. Two vectors and two metadata entries
  are in memory afterwards.
\<close>

theorem parallel_array_invariant_witness:
  "files_in_sync (Map.empty :: unit files) \<and>
   length (metadata_store (fst (run_store_ops unit_embedder ''1.8'' (new_index_manager 1, Map.empty) example_ops)))
     = vector_count (fst (run_store_ops unit_embedder ''1.8'' (new_index_manager 1, Map.empty) example_ops)) \<and>
   vector_count (fst (run_store_ops unit_embedder ''1.8'' (new_index_manager 1, Map.empty) example_ops)) = 2"
proof -
  have h1: "files_in_sync (Map.empty :: unit files)"
    by (simp add: files_in_sync_def)
  obtain m fs where h2:
    "run_store_ops unit_embedder ''1.8'' (new_index_manager 1, Map.empty) example_ops = (m, fs)"
    by (cases "run_store_ops unit_embedder ''1.8'' (new_index_manager 1, Map.empty :: unit files) example_ops")
  from parallel_array_invariant [OF h1 h2]
  have "length (metadata_store m) = vector_count m" by blast
  moreover have "vector_count m = 2"
    using h2 by (auto simp: store_eval)
  ultimately show ?thesis using h1 h2 by simp
qed

text \<open>
  C3. The claim: when the save at the end of add_text fails, the in-memory state is the
  state before the call. Evaluated on a session with no entries and a failing dump: the
  call raises OSError, and the index holds the new vector and the metadata store the new
  entry.
\<close>

theorem persist_failure_counterexample:
  "fst (add_text unit_embedder ''1.8'' DumpFails empty_session_manager Map.empty ''ab''
          (app_metadata (window ''editor'' ''notes''))) = Inl OSError \<and>
   metadata_store empty_session_manager = [] \<and>
   metadata_store (fst (snd (add_text unit_embedder ''1.8'' DumpFails empty_session_manager Map.empty ''ab''
          (app_metadata (window ''editor'' ''notes''))))) = [app_metadata (window ''editor'' ''notes'')] \<and>
   index empty_session_manager = Some \<lparr>idx_d = 1, idx_vectors = []\<rparr> \<and>
   index (fst (snd (add_text unit_embedder ''1.8'' DumpFails empty_session_manager Map.empty ''ab''
          (app_metadata (window ''editor'' ''notes''))))) = Some \<lparr>idx_d = 1, idx_vectors = [[2]]\<rparr>"
  by (simp add: add_text_def unit_embedder_def empty_session_manager_def faiss_add_def
      IndexFlatL2_def save_index_def Let_def)

text \<open>
  C3, as the code has it. add_text has no handler around save_index and nothing that
  undoes the two appends. When the index is loaded, the text is embedded into a vector
  of the index's dimension and save_index then raises, add_text raises the same error
  and the in-memory state is the state before the call with exactly the one new vector
  and the one new metadata entry appended.
\<close>

theorem persist_failure_keeps_appended_entry:
  assumes "index m = Some idx" and "embed_text text = Inr v" and "length v = idx_d idx"
    and "save_index ver w
           (m\<lparr>index := Some (idx\<lparr>idx_vectors := idx_vectors idx @ [v]\<rparr>),
              metadata_store := metadata_store m @ [md]\<rparr>) fs = (Inl e, fs')"
  shows "add_text embed_text ver w m fs text md =
           (Inl e,
            m\<lparr>index := Some (idx\<lparr>idx_vectors := idx_vectors idx @ [v]\<rparr>),
              metadata_store := metadata_store m @ [md]\<rparr>,
            fs')"
  using assms by (simp add: add_text_def faiss_add_single Let_def)

text \<open>
  The same at a concrete input: a session with no entries, a text of two characters and
  a dump that fails after the file was opened.
\<close>

theorem persist_failure_keeps_appended_entry_witness:
  "add_text unit_embedder ''1.8'' DumpFails empty_session_manager Map.empty ''ab''
      (app_metadata (window ''editor'' ''notes'')) =
   (Inl OSError,
    empty_session_manager\<lparr>index := Some \<lparr>idx_d = 1, idx_vectors = [[2]]\<rparr>,
       metadata_store := [app_metadata (window ''editor'' ''notes'')]\<rparr>,
    [''s.joblib'' \<mapsto> Unreadable])"
proof -
  have a: "index empty_session_manager = Some \<lparr>idx_d = 1, idx_vectors = []\<rparr>"
    by (simp add: empty_session_manager_def IndexFlatL2_def)
  have b: "unit_embedder ''ab'' = Inr [2]" by (simp add: unit_embedder_def)
  have c: "length [2::real] = idx_d \<lparr>idx_d = 1, idx_vectors = []\<rparr>" by simp
  have d: "save_index ''1.8'' DumpFails
             (empty_session_manager\<lparr>index := Some (\<lparr>idx_d = 1, idx_vectors = []\<rparr>\<lparr>idx_vectors := idx_vectors \<lparr>idx_d = 1, idx_vectors = []\<rparr> @ [[2]]\<rparr>),
                metadata_store := metadata_store empty_session_manager @ [app_metadata (window ''editor'' ''notes'')]\<rparr>)
             Map.empty = (Inl OSError, [''s.joblib'' \<mapsto> Unreadable])"
    by (simp add: save_index_def empty_session_manager_def)
  from persist_failure_keeps_appended_entry
    [of empty_session_manager _ unit_embedder "''ab''" _ _ DumpFails _ Map.empty, OF a b c d]
  show ?thesis by (simp add: empty_session_manager_def)
qed

text \<open>
  Without an index add_text fails and changes neither the manager nor the files; when
  the embedder returned a vector, the exception is the TypeError that Python 3 raises for
  the raise of a string.
\<close>

lemma add_text_without_index:
  "index m = None \<Longrightarrow>
     (\<exists>e. add_text embed_text ver w m fs text md = (Inl e, m, fs)) \<and>
     (\<forall>v. embed_text text = Inr v \<longrightarrow> add_text embed_text ver w m fs text md = (Inl TypeError, m, fs))"
  by (auto simp: add_text_def split: sum.splits)

text \<open>
  C4. The claim: add_text on a manager without an index fails with an error that says
  the index is not ready, and leaves the metadata store unchanged. Evaluated on a new
  manager: the call fails and nothing is changed, but the exception raised is Python's
  TypeError for raising a string, not an error of the index.
\<close>

theorem add_text_without_index_raises_TypeError:
  "add_text unit_embedder ''1.8'' WriteOk (new_index_manager 1 :: unit index_manager) Map.empty ''ab''
      (app_metadata (window ''editor'' ''notes''))
   = (Inl TypeError, new_index_manager 1, Map.empty)"
  by (simp add: add_text_def unit_embedder_def new_index_manager_def)

text \<open>
  The test of the loop lets every negative neighbour index pass; one that is not below
  minus the length of the store reads the entry counted from the end.
\<close>

lemma collect_results_negative_index:
  assumes "idx < 0" and "- int (length ms) \<le> idx"
  shows "collect_results ms (idx # rest) results =
           (case map_of (ms ! nat (int (length ms) + idx)) ''activity'' of
              None \<Rightarrow> Inl KeyError
            | Some v \<Rightarrow> collect_results ms rest (results @ [v]))"
  using assms by (simp add: py_getitem_def)

text \<open>
  C5. The claim: a neighbour index outside the bounds of the metadata store is skipped,
  and every result is the entry at an in-bounds neighbour index. The loop tests only the
  upper bound. With one vector indexed and k = 2 the library pads the neighbours with
  -1, which passes the test and reads the last entry: the single activity is returned
  twice. On a session with no entries the same read raises IndexError.
\<close>

theorem search_counts_padding_index:
  "search_by_text distance unit_embedder one_entry_manager [] 2
     = Inr [Application (window ''editor'' ''notes''), Application (window ''editor'' ''notes'')] \<and>
   search_by_text distance unit_embedder empty_session_manager [] 1 = Inl IndexError"
  by (simp add: search_by_text_def unit_embedder_def one_entry_manager_def empty_session_manager_def
      faiss_search_def Let_def py_getitem_def app_metadata_def IndexFlatL2_def)

section \<open>Theorems about the session switch\<close>

text \<open>
  C2. The claim: when the load of load_session raises while recording was active,
  recording is active again afterwards and index, metadata and session activities are as
  before. Evaluated on a session file whose metadata entry has no key activity:
  load_index assigns the new index and metadata and then raises KeyError while it builds
  the value to return; load_session restarts the recording and raises again, with the
  index and the metadata of the file in memory instead of the previous ones.
\<close>

theorem load_session_late_failure_replaces_session:
  "fst (load_session recording_manager [''t.joblib'' \<mapsto> session_without_activity_key] ''t'') = Inl KeyError \<and>
   is_active (state (snd (load_session recording_manager [''t.joblib'' \<mapsto> session_without_activity_key] ''t''))) \<and>
   index (faiss_index_manager recording_manager) = Some \<lparr>idx_d = 1, idx_vectors = [[0]]\<rparr> \<and>
   index (faiss_index_manager (snd (load_session recording_manager [''t.joblib'' \<mapsto> session_without_activity_key] ''t'')))
     = Some \<lparr>idx_d = 1, idx_vectors = [[3]]\<rparr> \<and>
   metadata_store (faiss_index_manager (snd (load_session recording_manager [''t.joblib'' \<mapsto> session_without_activity_key] ''t'')))
     = [[(''type'', TypeValue ''ApplicationActivity'')]]"
  by (simp add: load_session_def recording_manager_def session_without_activity_key_def
      one_entry_manager_def with_joblib_ext_def endswith_def load_index_def Let_def
      stop_recording_def start_recording_def get_activities_metadata_def)

text \<open>
  What does hold for every failed switch: recording is active again, the stop event is
  clear and the session activities are the previous ones. When the load fails before
  load_index assigns its fields (no file, a file that cannot be loaded, no key index),
  the index manager is the previous one too.
\<close>

lemma load_index_early_failure:
  "fs (with_joblib_ext path) = None \<or> fs (with_joblib_ext path) = Some Unreadable \<or>
   (\<exists>data. fs (with_joblib_ext path) = Some (Pickled data) \<and> f_index data = None) \<Longrightarrow>
   \<exists>e. load_index m fs path = (Inl e, m)"
  by (auto simp: load_index_def)

lemma with_joblib_ext_idem: "with_joblib_ext (with_joblib_ext p) = with_joblib_ext p"
  by (simp add: with_joblib_ext_def endswith_def)

lemma load_session_failure_restarts:
  assumes "is_active (state am)" and "load_session am fs path = (Inl e, am')"
  shows "is_active (state am') \<and> \<not> stop_event am' \<and> session_activites am' = session_activites am
         \<and> last_app_activity am' = last_app_activity am"
  using assms
  by (auto simp: load_session_def Let_def stop_recording_def start_recording_def
      split: prod.splits sum.splits)

lemma load_session_early_failure_rollback:
  assumes "is_active (state am)"
    and "fs (with_joblib_ext path) = None \<or> fs (with_joblib_ext path) = Some Unreadable \<or>
         (\<exists>data. fs (with_joblib_ext path) = Some (Pickled data) \<and> f_index data = None)"
  shows "\<exists>e am'. load_session am fs path = (Inl e, am') \<and> is_active (state am') \<and>
           faiss_index_manager am' = faiss_index_manager am \<and>
           session_activites am' = session_activites am"
proof -
  from load_index_early_failure [of fs "with_joblib_ext path" "faiss_index_manager (stop_recording am)"] assms(2)
  obtain e where "load_index (faiss_index_manager (stop_recording am)) fs (with_joblib_ext path)
      = (Inl e, faiss_index_manager (stop_recording am))"
    by (auto simp: with_joblib_ext_idem)
  with assms(1) show ?thesis
    by (auto simp: load_session_def Let_def stop_recording_def start_recording_def)
qed

section \<open>Theorems about the application poller\<close>











section \<open>Theorems about the heuristic PII scanner\<close>

lemma sublist_slice: "sublist (slice t s e) t"
proof -
  have "t = take s t @ slice t s e @ drop (e - s) (drop s t)"
    by (simp only: slice_def append_take_drop_id)
  then show ?thesis unfolding sublist_def by blast
qed

lemma sublist_group_text: "sublist (group_text t c n) t"
  by (auto simp: group_text_def sublist_slice split: option.splits)

lemma re_findall_sublist: "m \<in> set (re_findall r ic t) \<Longrightarrow> sublist m t"
  by (auto simp: re_findall_def sublist_slice sublist_group_text split: if_splits)

lemma extract_sublist:
  "\<forall>m \<in> set (extract_common_pii_sequences text). sublist m (pre_clean text)"
  by (auto simp: extract_common_pii_sequences_def Let_def dest: re_findall_sublist)

text \<open>
  Every string returned is a substring of the cleaned text. For the text
  "john @ gmail.com" (and for "john@ gmail com", where the second substitution puts the
  dot in) the scanner returns "john@gmail.com", which is not a substring of the text
  given, nor of its lower case.
\<close>

lemma pii_matches_are_substrings_of_cleaned_text:
  "(\<forall>m \<in> set (extract_common_pii_sequences text). sublist m (pre_clean text)) \<and>
   extract_common_pii_sequences ''john @ gmail.com'' = [''john@gmail.com''] \<and>
   \<not> sublist ''john@gmail.com'' ''john @ gmail.com'' \<and>
   \<not> sublist ''john@gmail.com'' (lower ''john @ gmail.com'') \<and>
   extract_common_pii_sequences ''john@ gmail com'' = [''john@gmail.com''] \<and>
   \<not> sublist ''john@gmail.com'' ''john@ gmail com''"
proof -
  have a: "\<forall>m \<in> set (extract_common_pii_sequences text). sublist m (pre_clean text)"
    by (rule extract_sublist)
  have b: "extract_common_pii_sequences ''john @ gmail.com'' = [''john@gmail.com'']"
    by code_simp
  have c: "\<not> sublist ''john@gmail.com'' ''john @ gmail.com''"
    by code_simp
  have d: "\<not> sublist ''john@gmail.com'' (lower ''john @ gmail.com'')"
    by code_simp
  have e: "extract_common_pii_sequences ''john@ gmail com'' = [''john@gmail.com'']"
    by code_simp
  have f: "\<not> sublist ''john@gmail.com'' ''john@ gmail com''"
    by code_simp
  from a b c d e f show ?thesis by blast
qed

text \<open>
  C10. The claim gives the text "john @ gmail com" as an input for which the scanner
  returns a string that is not a substring of the input, the cleaning step having
  repaired the address. On this text the first substitution gives "john@gmail com"; the
  second, which is to put the dot between "gmail" and "com", needs white space after the
  @ and finds none left; the cleaned text holds no address, no pattern matches, and
  nothing is returned.
\<close>

theorem pii_scanner_spaced_domain_not_repaired:
  "pre_clean ''john @ gmail com'' = ''john@gmail com'' \<and>
   extract_common_pii_sequences ''john @ gmail com'' = []"
  by code_simp

section \<open>Theorems about the region redactor\<close>

lemma blur_one_frame:
  "\<not> in_polygon fill bbox p \<Longrightarrow> pixels (snd (blur_one blur fill r img bbox)) p = pixels img p"
  by (auto simp: blur_one_def in_polygon_def Let_def paste_def polygon_mask_def inside_def
      gaussian_filter_def crop_def split: if_splits)

lemma blur_one_size:
  "width (snd (blur_one blur fill r img bbox)) = width img \<and>
   height (snd (blur_one blur fill r img bbox)) = height img"
  by (simp add: blur_one_def Let_def paste_def)

lemma blur_loop_frame:
  "\<forall>bbox \<in> set bboxes. \<not> in_polygon fill bbox p \<Longrightarrow>
   pixels (snd (blur_loop blur fill r img bboxes)) p = pixels img p"
proof (induction bboxes arbitrary: img)
  case Nil
  then show ?case by simp
next
  case (Cons bbox bboxes)
  obtain e img' where b: "blur_one blur fill r img bbox = (e, img')"
    by (cases "blur_one blur fill r img bbox")
  from Cons.prems have "\<not> in_polygon fill bbox p" by simp
  from blur_one_frame [OF this, of blur r img] b have one: "pixels img' p = pixels img p" by simp
  show ?case
  proof (cases e)
    case None
    from Cons.prems have "\<forall>bbox \<in> set bboxes. \<not> in_polygon fill bbox p" by simp
    from Cons.IH [OF this, of img'] None b one show ?thesis by simp
  next
    case (Some err)
    with b one show ?thesis by simp
  qed
qed

lemma blur_loop_size:
  "width (snd (blur_loop blur fill r img bboxes)) = width img \<and>
   height (snd (blur_loop blur fill r img bboxes)) = height img"
proof (induction bboxes arbitrary: img)
  case Nil
  then show ?case by simp
next
  case (Cons bbox bboxes)
  obtain e img' where b: "blur_one blur fill r img bbox = (e, img')"
    by (cases "blur_one blur fill r img bbox")
  with blur_one_size [of blur fill r img bbox] have s: "width img' = width img" "height img' = height img"
    by simp_all
  show ?case
  proof (cases e)
    case None
    with Cons.IH [of img'] b s show ?thesis by simp
  next
    case (Some err)
    with b s show ?thesis by simp
  qed
qed



lemma lower_char_idem: "lower_char (lower_char c) = lower_char c"
proof (cases "map_of (zip (upper_letters @ high_capitals) (lower_letters @ high_small_letters)) c")
  case None
  then show ?thesis by (simp add: lower_char_def)
next
  case (Some l)
  then have "l \<in> set (lower_letters @ high_small_letters)"
    by (auto dest!: map_of_SomeD set_zip_rightD)
  moreover have "\<forall>x \<in> set (lower_letters @ high_small_letters).
      map_of (zip (upper_letters @ high_capitals) (lower_letters @ high_small_letters)) x = None"
    by code_simp
  ultimately have
    "map_of (zip (upper_letters @ high_capitals) (lower_letters @ high_small_letters)) l = None"
    by blast
  with Some show ?thesis by (simp add: lower_char_def)
qed

text \<open>
  A substring of a text in lower case is its own lower case. For the tables of this
  file it is proved here; of str.lower it holds for every character that Python knows.
\<close>

lemma lower_fixes_lowered: "sublist s (lower t) \<Longrightarrow> lower s = s"
proof -
  assume "sublist s (lower t)"
  then have "set s \<subseteq> set (lower t)" by (rule set_mono_sublist)
  then have "\<forall>c \<in> set s. lower_char c = c"
    by (auto simp: lower_def lower_char_idem)
  then show ?thesis by (simp add: lower_def map_idI)
qed

lemma code_test_contains_ci:
  assumes "\<forall>s t. sublist s (str_lower t) \<longrightarrow> str_lower s = s"
    and "sublist fragment (str_lower t)"
  shows "contains_ci str_lower t fragment"
proof -
  from assms have "str_lower fragment = fragment" by blast
  with assms(2) show ?thesis by (simp only: contains_ci_def)
qed

lemma pii_boxes_flagged:
  "bbox \<in> set (pii_extracted_bounding_boxes str_lower chunks fragments) \<Longrightarrow>
   \<exists>chunk \<in> set chunks. bbox = text_bounding_box chunk \<and>
      (\<exists>fragment \<in> set fragments. sublist fragment (str_lower (ocr_text chunk)))"
  by (auto simp: pii_extracted_bounding_boxes_def split: if_splits)

text \<open>
  C6. The claim: outside the polygons of the matching chunks the produced image is
  byte-identical to the original. The produced image is the copy made by
  convert("RGBA"): for a screenshot of three bands every pixel of it has a fourth band,
  also where nothing is blurred. With no chunk at all, the pixel at (0, 0) of an RGB
  image of colour (10, 20, 30) is (10, 20, 30, 255) in the image produced.
\<close>

theorem redactor_byte_identity_counterexample:
  "fst (redact_screenshot lower black_blur fill_all [flat_image] 0 [] [] []) = Inr 1 \<and>
   pixels ([flat_image] ! 0) (0, 0) = RGB 10 20 30 \<and>
   pixels (snd (redact_screenshot lower black_blur fill_all [flat_image] 0 [] [] []) ! 1) (0, 0)
     = RGBA 10 20 30 255"
  by (simp add: redact_screenshot_def blur_regions_with_bboxs_def pii_extracted_bounding_boxes_def
      flat_image_def convert_RGBA_def to_rgba_def Let_def)

text \<open>
  C6, as the code has it. The redaction never writes to an image object that existed
  before the call, the input among them. When it returns, the image produced is a new
  object of the size of the input, and at every position that lies in the polygon of no
  chunk whose text in lower case contains a fragment, its pixel is the pixel of the
  original converted to RGBA. Since a substring of a text in lower case is its own lower
  case, such a chunk contains the fragment as a case-insensitive substring, and the same
  holds at every position that lies in the polygon of no chunk that contains a fragment
  as a case-insensitive substring. This holds for every type of characters, every
  function in the place of str.lower, every blur and every way of drawing polygons.
\<close>

theorem redactor_frame:
  assumes "screenshot < length heap"
    and "redact_screenshot str_lower blur fill heap screenshot chunks ner_fragments common_fragments
           = (res, heap')"
  shows "take (length heap) heap' = heap \<and> heap' ! screenshot = heap ! screenshot \<and>
     (\<forall>out. res = Inr out \<longrightarrow>
        out = length heap \<and> out \<noteq> screenshot \<and> length heap' = Suc (length heap) \<and>
        width (heap' ! out) = width (heap ! screenshot) \<and>
        height (heap' ! out) = height (heap ! screenshot) \<and>
        (\<forall>p. (\<forall>chunk \<in> set chunks.
                (\<exists>fragment \<in> set (ner_fragments @ common_fragments).
                    sublist fragment (str_lower (ocr_text chunk))) \<longrightarrow>
                \<not> in_polygon fill (text_bounding_box chunk) p)
             \<longrightarrow> pixels (heap' ! out) p = to_rgba (pixels (heap ! screenshot) p)) \<and>
        ((\<forall>s t. sublist s (str_lower t) \<longrightarrow> str_lower s = s) \<longrightarrow>
         (\<forall>p. (\<forall>chunk \<in> set chunks.
                (\<exists>fragment \<in> set (ner_fragments @ common_fragments).
                    contains_ci str_lower (ocr_text chunk) fragment) \<longrightarrow>
                \<not> in_polygon fill (text_bounding_box chunk) p)
             \<longrightarrow> pixels (heap' ! out) p = to_rgba (pixels (heap ! screenshot) p))))"
proof -
  let ?boxes = "pii_extracted_bounding_boxes str_lower chunks (ner_fragments @ common_fragments)"
  let ?img0 = "convert_RGBA (heap ! screenshot)"
  obtain e im where loop: "blur_loop blur fill 8 ?img0 ?boxes = (e, im)"
    by (cases "blur_loop blur fill 8 ?img0 ?boxes")
  have heap': "heap' = heap @ [im]"
    using assms(2) loop
    by (simp add: redact_screenshot_def blur_regions_with_bboxs_def Let_def nth_append
        split: option.splits)
  have res: "res = (case e of None \<Rightarrow> Inr (length heap) | Some err \<Rightarrow> Inl err)"
    using assms(2) loop
    by (simp add: redact_screenshot_def blur_regions_with_bboxs_def Let_def nth_append
        split: option.splits)
  have a: "take (length heap) heap' = heap" by (simp add: heap')
  have b: "heap' ! screenshot = heap ! screenshot"
    using assms(1) by (simp add: heap' nth_append)
  have size: "width im = width (heap ! screenshot)" "height im = height (heap ! screenshot)"
    using blur_loop_size [of blur fill 8 ?img0 ?boxes] loop by (simp_all add: convert_RGBA_def)
  have frame: "pixels im p = to_rgba (pixels (heap ! screenshot) p)"
    if h: "\<forall>chunk \<in> set chunks.
                (\<exists>fragment \<in> set (ner_fragments @ common_fragments).
                    sublist fragment (str_lower (ocr_text chunk))) \<longrightarrow>
                \<not> in_polygon fill (text_bounding_box chunk) p" for p
  proof -
    have "\<forall>bbox \<in> set ?boxes. \<not> in_polygon fill bbox p"
    proof
      fix bbox assume "bbox \<in> set ?boxes"
      from pii_boxes_flagged [OF this] h show "\<not> in_polygon fill bbox p" by blast
    qed
    from blur_loop_frame [OF this, of blur 8 ?img0] loop
    show ?thesis by (simp add: convert_RGBA_def)
  qed
  have frame_ci: "pixels im p = to_rgba (pixels (heap ! screenshot) p)"
    if fixed: "\<forall>s t. sublist s (str_lower t) \<longrightarrow> str_lower s = s"
      and h: "\<forall>chunk \<in> set chunks.
                (\<exists>fragment \<in> set (ner_fragments @ common_fragments).
                    contains_ci str_lower (ocr_text chunk) fragment) \<longrightarrow>
                \<not> in_polygon fill (text_bounding_box chunk) p" for p
  proof (rule frame, intro ballI impI)
    fix chunk
    assume c: "chunk \<in> set chunks"
      and "\<exists>fragment \<in> set (ner_fragments @ common_fragments).
                    sublist fragment (str_lower (ocr_text chunk))"
    then obtain fragment where f: "fragment \<in> set (ner_fragments @ common_fragments)"
      and t: "sublist fragment (str_lower (ocr_text chunk))" by blast
    from code_test_contains_ci [OF fixed t] f
    have "\<exists>fragment \<in> set (ner_fragments @ common_fragments).
              contains_ci str_lower (ocr_text chunk) fragment" by blast
    with h c show "\<not> in_polygon fill (text_bounding_box chunk) p" by blast
  qed
  have c: "\<forall>out. res = Inr out \<longrightarrow>
        out = length heap \<and> out \<noteq> screenshot \<and> length heap' = Suc (length heap) \<and>
        width (heap' ! out) = width (heap ! screenshot) \<and>
        height (heap' ! out) = height (heap ! screenshot) \<and>
        (\<forall>p. (\<forall>chunk \<in> set chunks.
                (\<exists>fragment \<in> set (ner_fragments @ common_fragments).
                    sublist fragment (str_lower (ocr_text chunk))) \<longrightarrow>
                \<not> in_polygon fill (text_bounding_box chunk) p)
             \<longrightarrow> pixels (heap' ! out) p = to_rgba (pixels (heap ! screenshot) p)) \<and>
        ((\<forall>s t. sublist s (str_lower t) \<longrightarrow> str_lower s = s) \<longrightarrow>
         (\<forall>p. (\<forall>chunk \<in> set chunks.
                (\<exists>fragment \<in> set (ner_fragments @ common_fragments).
                    contains_ci str_lower (ocr_text chunk) fragment) \<longrightarrow>
                \<not> in_polygon fill (text_bounding_box chunk) p)
             \<longrightarrow> pixels (heap' ! out) p = to_rgba (pixels (heap ! screenshot) p)))"
  proof (intro allI impI)
    fix out assume "res = Inr out"
    with res have out: "out = length heap" by (cases e) simp_all
    with assms(1) have ne: "out \<noteq> screenshot" by simp
    have im: "heap' ! out = im" by (simp add: heap' out)
    have len: "length heap' = Suc (length heap)" by (simp add: heap')
    from out ne len size frame frame_ci
    show "out = length heap \<and> out \<noteq> screenshot \<and> length heap' = Suc (length heap) \<and>
        width (heap' ! out) = width (heap ! screenshot) \<and>
        height (heap' ! out) = height (heap ! screenshot) \<and>
        (\<forall>p. (\<forall>chunk \<in> set chunks.
                (\<exists>fragment \<in> set (ner_fragments @ common_fragments).
                    sublist fragment (str_lower (ocr_text chunk))) \<longrightarrow>
                \<not> in_polygon fill (text_bounding_box chunk) p)
             \<longrightarrow> pixels (heap' ! out) p = to_rgba (pixels (heap ! screenshot) p)) \<and>
        ((\<forall>s t. sublist s (str_lower t) \<longrightarrow> str_lower s = s) \<longrightarrow>
         (\<forall>p. (\<forall>chunk \<in> set chunks.
                (\<exists>fragment \<in> set (ner_fragments @ common_fragments).
                    contains_ci str_lower (ocr_text chunk) fragment) \<longrightarrow>
                \<not> in_polygon fill (text_bounding_box chunk) p)
             \<longrightarrow> pixels (heap' ! out) p = to_rgba (pixels (heap ! screenshot) p)))"
      unfolding im by blast
  qed
  from a b c show ?thesis by blast
qed

text \<open>
  The frame at a concrete input, with the lower case of the tables of this file: the
  chunk that holds the name in capitals, its last letter an accented one, matches the
  fragment in small letters and its box is blurred (position (1, 1) is painted); the
  chunk "hello" does not match, and position (3, 3) in its box keeps the colour of the
  original, by the first and by the second form of the frame.
\<close>

theorem redactor_frame_witness:
  "fst (redact_screenshot lower black_blur fill_all [flat_image] 0 two_chunks [jose] []) = Inr 1 \<and>
   snd (redact_screenshot lower black_blur fill_all [flat_image] 0 two_chunks [jose] []) ! 0 = flat_image \<and>
   pixels (snd (redact_screenshot lower black_blur fill_all [flat_image] 0 two_chunks [jose] []) ! 1) (3, 3)
     = RGBA 10 20 30 255 \<and>
   pixels (snd (redact_screenshot lower black_blur fill_all [flat_image] 0 two_chunks [jose] []) ! 1) (1, 1)
     = RGBA 0 0 0 255"
proof -
  let ?r = "redact_screenshot lower black_blur fill_all [flat_image] 0 two_chunks [jose] []"
  have t1: "sublist jose (lower (ocr_text (two_chunks ! 0)))" by code_simp
  have t2: "\<not> sublist jose (lower (ocr_text (two_chunks ! 1)))" by code_simp
  have boxes: "pii_extracted_bounding_boxes lower two_chunks [jose] = [[(0, 0), (2, 0), (2, 2), (0, 2)]]"
    using t1 t2 by (simp add: pii_extracted_bounding_boxes_def two_chunks_def)
  have res: "fst ?r = Inr 1"
    by (simp add: redact_screenshot_def boxes blur_regions_with_bboxs_def Let_def blur_one_def
        py_int_def py_min_def py_max_def)
  obtain heap' where r: "?r = (Inr 1, heap')"
    using res by (cases ?r) simp
  have c1: "\<not> contains_ci lower (ocr_text (two_chunks ! 1)) jose"
    unfolding contains_ci_def by code_simp
  have out: "\<not> in_polygon fill_all [(0, 0), (2, 0), (2, 2), (0, 2)] (3, 3)"
    by (simp add: in_polygon_def py_int_def py_min_def py_max_def Let_def)
  have hyp: "\<forall>chunk \<in> set two_chunks.
                (\<exists>fragment \<in> set ([jose] @ []). sublist fragment (lower (ocr_text chunk))) \<longrightarrow>
                \<not> in_polygon fill_all (text_bounding_box chunk) (3, 3)"
    using t2 out by (simp add: two_chunks_def)
  have hyp_ci: "\<forall>chunk \<in> set two_chunks.
                (\<exists>fragment \<in> set ([jose] @ []). contains_ci lower (ocr_text chunk) fragment) \<longrightarrow>
                \<not> in_polygon fill_all (text_bounding_box chunk) (3, 3)"
    using c1 out by (simp add: two_chunks_def)
  have fixed: "\<forall>s t. sublist s (lower t) \<longrightarrow> lower s = s"
    using lower_fixes_lowered by blast
  have len: "0 < length [flat_image]" by simp
  note frame = redactor_frame [OF len r]
  from frame have "heap' ! 0 = [flat_image] ! 0" by blast
  then have a: "heap' ! 0 = flat_image" by simp
  from frame hyp have "pixels (heap' ! 1) (3, 3) = to_rgba (pixels ([flat_image] ! 0) (3, 3))"
    by blast
  then have b: "pixels (heap' ! 1) (3, 3) = RGBA 10 20 30 255"
    by (simp add: flat_image_def to_rgba_def)
  from frame fixed hyp_ci
  have "pixels (heap' ! 1) (3, 3) = to_rgba (pixels ([flat_image] ! 0) (3, 3))"
    by blast
  have c: "pixels (snd ?r ! 1) (1, 1) = RGBA 0 0 0 255"
    by (simp add: redact_screenshot_def boxes blur_regions_with_bboxs_def Let_def blur_one_def
        py_int_def py_min_def py_max_def paste_def inside_def gaussian_filter_def crop_def
        polygon_mask_def fill_all_def black_blur_def flat_image_def convert_RGBA_def)
  from res a b c r show ?thesis by simp
qed

end
